theory Spec2Isabelle
  imports Complex_Main "HOL-Library.FSet" "HOL-Library.Multiset" "HOL-Library.Log_Nat"
begin

section \<open>London Output Area surface analysis: the overlay and area accounting\<close>

text \<open>
  The script \<^verbatim>\<open>web_app_deploy.py\<close> resolves a postcode to an Output Area, clips three
  layers (buildings, car parks, greenspace) to the area's boundary, assigns every piece of
  surface to one class by a fixed priority, and reports areas and percentages.

  The development embeds steps 2 to 8 of the script. The geometry kernel (shapely and
  geopandas) is not part of the script; it is modelled by exact point-set algebra over a
  grid: a geometry is a finite set of unit cells, union, intersection and difference are the
  set operations, and the area of a geometry is its number of cells, so rounding slivers
  of the floating-point kernel are outside the model. The arithmetic the script does itself,
  the quotient and the product of the percentages, is modelled in double precision: each
  result is rounded to the nearest double, and a division by zero gives \<open>nan\<close> or
  \<open>inf\<close>, as numpy answers it, instead of raising.
\<close>

subsection \<open>Geometry kernel\<close>

type_synonym cell = "int \<times> int"

type_synonym geometry = "cell fset"

text \<open>\<^verbatim>\<open>GeometryCollection()\<close>: the empty geometry.\<close>

definition GeometryCollection :: geometry where
  "GeometryCollection = {||}"

definition is_empty :: "geometry \<Rightarrow> bool" where
  "is_empty g = (g = {||})"

definition area :: "geometry \<Rightarrow> real" where
  "area g = real (fcard g)"

definition difference :: "geometry \<Rightarrow> geometry \<Rightarrow> geometry" where
  "difference g h = g |-| h"

definition intersection :: "geometry \<Rightarrow> geometry \<Rightarrow> geometry" where
  "intersection g h = g |\<inter>| h"

text \<open>\<^verbatim>\<open>shapely.ops.unary_union\<close>: the union of a sequence of geometries; empty for
  an empty sequence.\<close>

primrec unary_union :: "geometry list \<Rightarrow> geometry" where
  "unary_union [] = {||}"
| "unary_union (g # gs) = g |\<union>| unary_union gs"

text \<open>
  \<^verbatim>\<open>gpd.overlay(df1, df2, how="intersection")\<close>: one row for every pair of a row of
  \<open>df1\<close> and a row of \<open>df2\<close> that intersect, holding the intersection; pairs are
  ordered by the row of \<open>df1\<close>, then by the row of \<open>df2\<close>. Only the geometry column
  is used by the script, so a frame is the list of its geometries.
\<close>

definition overlay_intersection :: "geometry list \<Rightarrow> geometry list \<Rightarrow> geometry list" where
  "overlay_intersection df1 df2 =
     filter (\<lambda>g. \<not> is_empty g) (concat (map (\<lambda>g1. map (\<lambda>g2. intersection g1 g2) df2) df1))"

subsection \<open>Double-precision arithmetic\<close>

text \<open>
  A double has a significand of 53 bits. A real \<open>x\<close> with \<open>2^e \<le> |x| < 2^(e+1)\<close> is
  rounded to the nearest multiple of \<open>2^(e-52)\<close>, a tie going to the even multiple. The
  exponent range of a double is not modelled: the quotients and percentages of areas stay far
  from overflow and underflow.
\<close>

text \<open>Rounding to the nearest integer, ties to even.\<close>

definition round_half_even :: "real \<Rightarrow> int" where
  "round_half_even m =
     (let f = \<lfloor>m\<rfloor>; d = m - of_int f
      in if d < 1 / 2 then f else if 1 / 2 < d then f + 1 else if even f then f else f + 1)"

text \<open>The binary exponent \<open>e\<close> of a positive real: \<open>2^e \<le> x < 2^(e+1)\<close>.\<close>

definition binade :: "real \<Rightarrow> int" where
  "binade x = (if 1 \<le> x then bitlen \<lfloor>x\<rfloor> - 1 else - bitlen (\<lceil>1 / x\<rceil> - 1))"

definition float64 :: "real \<Rightarrow> real" where
  "float64 x =
     (if x = 0 then 0
      else let q = 2 powi (binade \<bar>x\<bar> - 52)
           in sgn x * of_int (round_half_even (\<bar>x\<bar> / q)) * q)"

text \<open>
  \<^verbatim>\<open>(x / total_area) * 100\<close>: \<open>total_area\<close> is a numpy float, so the expression never
  raises. The quotient is rounded, then the product with 100 is rounded. A zero denominator
  gives \<open>nan\<close> for a zero numerator and an infinity otherwise, and both survive the
  multiplication by 100.
\<close>

datatype npfloat = Finite real | PosInf | NegInf | NaN

definition pct :: "real \<Rightarrow> real \<Rightarrow> npfloat" where
  "pct x t =
     (if t \<noteq> 0 then Finite (float64 (float64 (x / t) * 100))
      else if 0 < x then PosInf
      else if x < 0 then NegInf
      else NaN)"

text \<open>Whether a quotient is an ordinary number, neither \<open>nan\<close> nor an infinity.\<close>

fun is_finite :: "npfloat \<Rightarrow> bool" where
  "is_finite (Finite x) = True"
| "is_finite PosInf = False"
| "is_finite NegInf = False"
| "is_finite NaN = False"

subsection \<open>Step 2: the boundary of the Output Area\<close>

text \<open>A row of the Output Area layer; the geometry of a row may be missing (\<open>None\<close>).\<close>

record oa_row =
  OA21CD :: string
  geometry :: "geometry option"

text \<open>\<^verbatim>\<open>oa_layer[oa_layer["OA21CD"] == oa_code]\<close>, geometry column.\<close>

definition extract_oa_boundary :: "oa_row list \<Rightarrow> string \<Rightarrow> geometry option list" where
  "extract_oa_boundary oa_layer oa_code =
     map geometry (filter (\<lambda>row. OA21CD row = oa_code) oa_layer)"

subsection \<open>Steps 4 and 5: priority rules and the opportunity surface\<close>

record classes =
  building_union :: geometry
  carpark_union :: geometry
  greenspace_union :: geometry
  opportunity_geom :: geometry

text \<open>
  The arguments are the first row of the boundary frame
  (\<^verbatim>\<open>oa_boundary.geometry.iloc[0]\<close>) and the three clipped frames. The frames
  \<open>carpark\<close> and \<open>greenspace\<close> are overwritten in the script by their row-wise
  difference before being merged.
\<close>

definition apply_priority_rules ::
  "geometry \<Rightarrow> geometry list \<Rightarrow> geometry list \<Rightarrow> geometry list \<Rightarrow> classes" where
  "apply_priority_rules oa0 buildings carpark greenspace =
     (let bu = (if buildings \<noteq> [] then unary_union buildings else GeometryCollection);
          carpark' = map (\<lambda>g. difference g bu) carpark;
          cu = (if carpark' \<noteq> [] then unary_union carpark' else GeometryCollection);
          combined_union = unary_union [bu, cu];
          greenspace' = map (\<lambda>g. difference g combined_union) greenspace;
          gu = (if greenspace' \<noteq> [] then unary_union greenspace' else GeometryCollection);
          classified_union = unary_union [bu, cu, gu]
      in \<lparr>building_union = bu, carpark_union = cu, greenspace_union = gu,
          opportunity_geom = difference oa0 classified_union\<rparr>)"

subsection \<open>Step 6: area calculations\<close>

record area_report =
  total_area :: real
  building_area :: real
  carpark_area :: real
  greenspace_area :: real
  opportunity_area :: real
  building_pct :: npfloat
  carpark_pct :: npfloat
  greenspace_pct :: npfloat
  opportunity_pct :: npfloat

text \<open>\<^verbatim>\<open>g.area if not g.is_empty else 0\<close>\<close>

definition area_or_zero :: "geometry \<Rightarrow> real" where
  "area_or_zero g = (if \<not> is_empty g then area g else 0)"

definition area_calculations :: "geometry \<Rightarrow> classes \<Rightarrow> area_report" where
  "area_calculations oa0 c =
     (let ta = area oa0;
          ba = area_or_zero (building_union c);
          ca = area_or_zero (carpark_union c);
          ga = area_or_zero (greenspace_union c);
          oa = area_or_zero (opportunity_geom c)
      in \<lparr>total_area = ta,
          building_area = ba, carpark_area = ca, greenspace_area = ga, opportunity_area = oa,
          building_pct = pct ba ta, carpark_pct = pct ca ta,
          greenspace_pct = pct ga ta, opportunity_pct = pct oa ta\<rparr>)"

subsection \<open>Step 8: map display\<close>

text \<open>
  The reprojection \<^verbatim>\<open>to_crs(epsg=4326)\<close> belongs to the kernel and is a parameter.
\<close>

definition to_wgs84 :: "(geometry \<Rightarrow> geometry) \<Rightarrow> geometry \<Rightarrow> geometry option" where
  "to_wgs84 to_crs geom = (if is_empty geom then None else Some (to_crs geom))"

record pdk_layer =
  layer_data :: "geometry list"
  filled :: bool
  colour :: "nat list"

text \<open>\<^verbatim>\<open>if building_display:\<close> is false for \<open>None\<close> and for an empty geometry.\<close>

definition truthy :: "geometry option \<Rightarrow> bool" where
  "truthy d = (case d of None \<Rightarrow> False | Some g \<Rightarrow> \<not> is_empty g)"

definition class_layer :: "geometry option \<Rightarrow> nat list \<Rightarrow> pdk_layer list" where
  "class_layer d rgba =
     (if truthy d then [\<lparr>layer_data = [the d], filled = True, colour = rgba\<rparr>] else [])"

record map_display =
  building_display :: "geometry option"
  carpark_display :: "geometry option"
  greenspace_display :: "geometry option"
  opportunity_display :: "geometry option"
  oa_display :: "geometry list"
  layers :: "pdk_layer list"

definition prepare_map_display ::
  "(geometry \<Rightarrow> geometry) \<Rightarrow> geometry list \<Rightarrow> classes \<Rightarrow> map_display" where
  "prepare_map_display to_crs oa_boundary c =
     (let bd = to_wgs84 to_crs (building_union c);
          cd = to_wgs84 to_crs (carpark_union c);
          gd = to_wgs84 to_crs (greenspace_union c);
          od = to_wgs84 to_crs (opportunity_geom c);
          oad = map to_crs oa_boundary
      in \<lparr>building_display = bd, carpark_display = cd, greenspace_display = gd,
          opportunity_display = od, oa_display = oad,
          layers = class_layer bd [200, 0, 0, 180] @ class_layer cd [150, 0, 200, 180]
                   @ class_layer gd [0, 180, 0, 180] @ class_layer od [0, 100, 255, 160]
                   @ [\<lparr>layer_data = oad, filled = False, colour = [255, 215, 0]\<rparr>]\<rparr>)"

subsection \<open>The run\<close>

datatype error = OutputAreaGeometryNotFound | AttributeError

record outcome =
  surfaces :: classes
  report :: area_report
  display :: map_display

text \<open>
  The arguments are the geometries of the boundary frame selected in step 2 and the three
  layers, all in the metric reference system. An empty boundary frame stops the script
  (\<^verbatim>\<open>st.error("Output Area geometry not found."); st.stop()\<close>); the script makes no
  other check on the boundary.
\<close>

fun main_logic ::
  "(geometry \<Rightarrow> geometry) \<Rightarrow> geometry list \<Rightarrow> geometry list \<Rightarrow> geometry list \<Rightarrow> geometry list
     \<Rightarrow> error + outcome" where
  "main_logic to_crs [] buildings_layer carpark_layer greenspace_layer =
     Inl OutputAreaGeometryNotFound"
| "main_logic to_crs (oa0 # rest) buildings_layer carpark_layer greenspace_layer =
     (let oa_boundary = oa0 # rest;
          buildings = overlay_intersection buildings_layer oa_boundary;
          carpark = overlay_intersection carpark_layer oa_boundary;
          greenspace = overlay_intersection greenspace_layer oa_boundary;
          c = apply_priority_rules oa0 buildings carpark greenspace
      in Inr \<lparr>surfaces = c, report = area_calculations oa0 c,
              display = prepare_map_display to_crs oa_boundary c\<rparr>)"

text \<open>The rows of a frame that hold a geometry; a row without one meets no layer.\<close>

fun present :: "geometry option list \<Rightarrow> geometry list" where
  "present [] = []"
| "present (None # rows) = present rows"
| "present (Some g # rows) = g # present rows"

text \<open>
  Steps 2 to 8 for an Output Area code: the boundary frame is looked up first. When the first
  matched row has no geometry, \<^verbatim>\<open>oa_boundary.geometry.iloc[0]\<close> is \<open>None\<close> and
  \<^verbatim>\<open>.difference\<close> on it raises \<open>AttributeError\<close>.
\<close>

definition surface_analysis ::
  "(geometry \<Rightarrow> geometry) \<Rightarrow> oa_row list \<Rightarrow> string
     \<Rightarrow> geometry list \<Rightarrow> geometry list \<Rightarrow> geometry list \<Rightarrow> error + outcome" where
  "surface_analysis to_crs oa_layer oa_code buildings_layer carpark_layer greenspace_layer =
     (case extract_oa_boundary oa_layer oa_code of
        [] \<Rightarrow> main_logic to_crs [] buildings_layer carpark_layer greenspace_layer
      | None # rest \<Rightarrow> Inl AttributeError
      | Some oa0 # rest \<Rightarrow>
          main_logic to_crs (oa0 # present rest) buildings_layer carpark_layer greenspace_layer)"

subsection \<open>The classifier as the specification words it\<close>

text \<open>
  The specification unions each raw layer first and takes one difference:
  \<open>building_union = union_of(buildings)\<close>, empty if \<open>buildings\<close> is empty;
  \<open>carpark_raw = union_of(carpark)\<close>,
  \<open>carpark_union = carpark_raw.difference(building_union)\<close>;
  \<open>occupied = union_of(building_union, carpark_union)\<close>,
  \<open>greenspace_raw = union_of(greenspace)\<close>,
  \<open>greenspace_union = greenspace_raw.difference(occupied)\<close>;
  \<open>classified = union_of(building_union, carpark_union, greenspace_union)\<close>,
  \<open>opportunity_geom = boundary.difference(classified)\<close>.
\<close>

definition spec_classify ::
  "geometry \<Rightarrow> geometry list \<Rightarrow> geometry list \<Rightarrow> geometry list \<Rightarrow> classes" where
  "spec_classify boundary buildings carpark greenspace =
     (let bu = (if buildings = [] then GeometryCollection else unary_union buildings);
          carpark_raw = unary_union carpark;
          cu = difference carpark_raw bu;
          occupied = unary_union [bu, cu];
          greenspace_raw = unary_union greenspace;
          gu = difference greenspace_raw occupied;
          classified = unary_union [bu, cu, gu]
      in \<lparr>building_union = bu, carpark_union = cu, greenspace_union = gu,
          opportunity_geom = difference boundary classified\<rparr>)"

section \<open>Properties\<close>

subsection \<open>Rounding to double precision\<close>

lemma round_half_even_error: "\<bar>of_int (round_half_even m) - m\<bar> \<le> 1 / 2"
  unfolding round_half_even_def Let_def
  by (auto simp: abs_if) linarith+

lemma binade_bounds:
  assumes "0 < x"
  shows "2 powi (binade x) \<le> x" and "x < 2 powi (binade x + 1)"
proof -
  have "2 powi (binade x) \<le> x \<and> x < 2 powi (binade x + 1)"
  proof (cases "1 \<le> x")
    case True
    let ?n = "\<lfloor>x\<rfloor>"
    from True have n: "0 < ?n" by linarith
    have k: "1 \<le> bitlen ?n" using n by (simp add: bitlen_alt_def)
    from bitlen_bounds [OF n]
    have lo: "(2::int) ^ nat (bitlen ?n - 1) \<le> ?n" and hi: "?n < 2 ^ nat (bitlen ?n)" by auto
    have b: "binade x = bitlen ?n - 1" using True by (simp add: binade_def)
    have p1: "(2::real) powi (bitlen ?n - 1) = 2 ^ nat (bitlen ?n - 1)"
      using k by (simp add: power_int_def)
    have p2: "(2::real) powi (bitlen ?n - 1 + 1) = 2 ^ nat (bitlen ?n)"
      using k by (simp add: power_int_def)
    have "real_of_int ((2::int) ^ nat (bitlen ?n - 1)) \<le> x"
      using lo by (simp only: le_floor_iff)
    then have l: "(2::real) ^ nat (bitlen ?n - 1) \<le> x"
      by simp
    have "x < real_of_int (2 ^ nat (bitlen ?n))"
      using hi by (simp only: floor_less_iff)
    then have h: "x < (2::real) ^ nat (bitlen ?n)"
      by simp
    show ?thesis unfolding b p1 p2 using l h by simp
  next
    case False
    with assms have x1: "x < 1" by simp
    let ?y = "1 / x"
    let ?m = "\<lceil>?y\<rceil> - 1"
    have y1: "1 < ?y" using assms x1 by simp
    have m: "0 < ?m" using y1 by linarith
    have k: "1 \<le> bitlen ?m" using m by (simp add: bitlen_alt_def)
    from bitlen_bounds [OF m]
    have lo: "(2::int) ^ nat (bitlen ?m - 1) \<le> ?m" and hi: "?m < 2 ^ nat (bitlen ?m)" by auto
    have b: "binade x = - bitlen ?m" using False by (simp add: binade_def)
    have "\<lceil>?y\<rceil> \<le> 2 ^ nat (bitlen ?m)" using hi by simp
    then have "?y \<le> real_of_int (2 ^ nat (bitlen ?m))"
      by (simp only: ceiling_le_iff)
    then have "?y \<le> 2 ^ nat (bitlen ?m)"
      by simp
    then have "1 \<le> 2 ^ nat (bitlen ?m) * x"
      using assms by (simp add: field_simps)
    then have l: "1 / 2 ^ nat (bitlen ?m) \<le> x"
      by (simp add: field_simps)
    have "(2::int) ^ nat (bitlen ?m - 1) < \<lceil>?y\<rceil>" using lo by simp
    then have "real_of_int ((2::int) ^ nat (bitlen ?m - 1)) < ?y"
      by (simp only: less_ceiling_iff)
    then have "(2::real) ^ nat (bitlen ?m - 1) < ?y"
      by simp
    then have "2 ^ nat (bitlen ?m - 1) * x < 1"
      using assms by (simp add: field_simps)
    then have h: "x < 1 / 2 ^ nat (bitlen ?m - 1)"
      by (simp add: field_simps)
    have p1: "(2::real) powi (- bitlen ?m) = 1 / 2 ^ nat (bitlen ?m)"
      using k by (simp add: power_int_def field_simps)
    have p2: "(2::real) powi (- bitlen ?m + 1) = 1 / 2 ^ nat (bitlen ?m - 1)"
    proof -
      have "- bitlen ?m + 1 = - (bitlen ?m - 1)" by simp
      then have "(2::real) powi (- bitlen ?m + 1) = inverse (2 powi (bitlen ?m - 1))"
        by (simp only: power_int_minus)
      also have "\<dots> = 1 / 2 ^ nat (bitlen ?m - 1)"
        using k by (simp add: power_int_def field_simps)
      finally show ?thesis .
    qed
    show ?thesis unfolding b p1 p2 using l h by simp
  qed
  then show "2 powi (binade x) \<le> x" and "x < 2 powi (binade x + 1)" by simp_all
qed

lemma float64_zero: "float64 0 = 0"
  by (simp add: float64_def)

text \<open>The relative error of one rounding is at most \<open>2^-53\<close>.\<close>

lemma float64_error: "\<bar>float64 x - x\<bar> \<le> \<bar>x\<bar> / 2 ^ 53"
proof (cases "x = 0")
  case True
  then show ?thesis by (simp add: float64_def)
next
  case False
  let ?e = "binade \<bar>x\<bar>"
  let ?q = "(2::real) powi (?e - 52)"
  let ?r = "real_of_int (round_half_even (\<bar>x\<bar> / ?q))"
  from False have ax: "0 < \<bar>x\<bar>" by simp
  have q: "0 < ?q" by simp
  have f: "float64 x = sgn x * ?r * ?q"
    using False by (simp add: float64_def Let_def)
  have "float64 x - x = sgn x * (?r - \<bar>x\<bar> / ?q) * ?q"
    using q by (simp add: f algebra_simps sgn_if)
  then have "\<bar>float64 x - x\<bar> = \<bar>?r - \<bar>x\<bar> / ?q\<bar> * ?q"
    using False q by (simp add: abs_mult sgn_if)
  also have "\<dots> \<le> (1 / 2) * ?q"
    using round_half_even_error [of "\<bar>x\<bar> / ?q"] q
    by (intro mult_right_mono) simp_all
  also have "\<dots> = 2 powi ?e / 2 ^ 53"
  proof -
    have "(2::real) powi (?e - 52) = 2 powi ?e / 2 powi 52"
      by (simp add: power_int_diff)
    then show ?thesis by simp
  qed
  also have "\<dots> \<le> \<bar>x\<bar> / 2 ^ 53"
    using binade_bounds(1) [OF ax] by (simp add: divide_right_mono)
  finally show ?thesis .
qed

lemma abs_le_near:
  fixes y c d :: real
  assumes "\<bar>y - c\<bar> \<le> d" and "0 \<le> c"
  shows "\<bar>y\<bar> \<le> c + d"
  using assms by linarith

lemma abs_two_steps:
  fixes z y c d1 d2 :: real
  assumes "\<bar>z - y * 100\<bar> \<le> d1" and "\<bar>y - c\<bar> \<le> d2"
  shows "\<bar>z - c * 100\<bar> \<le> d1 + d2 * 100"
  using assms by linarith

lemma abs_sum_four:
  fixes p1 p2 p3 p4 c1 c2 c3 c4 e :: real
  assumes "\<bar>p1 - c1 * 100\<bar> \<le> c1 * e" and "\<bar>p2 - c2 * 100\<bar> \<le> c2 * e"
    and "\<bar>p3 - c3 * 100\<bar> \<le> c3 * e" and "\<bar>p4 - c4 * 100\<bar> \<le> c4 * e"
    and "c1 + c2 + c3 + c4 = 1"
  shows "\<bar>p1 + p2 + p3 + p4 - 100\<bar> \<le> e"
proof -
  have "c1 * e + c2 * e + c3 * e + c4 * e = (c1 + c2 + c3 + c4) * e"
    by (simp add: distrib_right)
  then have "c1 * e + c2 * e + c3 * e + c4 * e = e"
    using assms(5) by simp
  then show ?thesis
    using assms by linarith
qed

text \<open>A percentage is off the exact one by a relative error of at most \<open>3 / 10^14\<close>.\<close>

lemma pct_error:
  assumes "t \<noteq> 0" and "0 \<le> x / t"
  shows "\<exists>p. pct x t = Finite p \<and> \<bar>p - x / t * 100\<bar> \<le> x / t * (3 / 10 ^ 14)"
proof -
  let ?c = "x / t"
  let ?u = "1 / 2 ^ 53 :: real"
  let ?y = "float64 ?c"
  let ?z = "float64 (?y * 100)"
  have y: "\<bar>?y - ?c\<bar> \<le> ?c * ?u"
    using float64_error [of ?c] assms(2) by simp
  then have ay: "\<bar>?y\<bar> \<le> ?c + ?c * ?u"
    using assms(2) by (rule abs_le_near)
  have "\<bar>?z - ?y * 100\<bar> \<le> \<bar>?y * 100\<bar> * ?u"
    using float64_error [of "?y * 100"] by simp
  also have "\<dots> = (\<bar>?y\<bar> * ?u) * 100"
    by (simp add: abs_mult)
  also have "\<dots> \<le> ((?c + ?c * ?u) * ?u) * 100"
    using ay by (intro mult_right_mono) simp_all
  finally have z: "\<bar>?z - ?y * 100\<bar> \<le> ((?c + ?c * ?u) * ?u) * 100" .
  have "\<bar>?z - ?c * 100\<bar> \<le> ((?c + ?c * ?u) * ?u) * 100 + (?c * ?u) * 100"
    using z y by (rule abs_two_steps)
  also have "\<dots> = ?c * (100 * ?u * (2 + ?u))"
    by (simp add: algebra_simps)
  also have "\<dots> \<le> ?c * (3 / 10 ^ 14)"
    using assms(2) by (intro mult_left_mono) simp_all
  finally have "\<bar>?z - ?c * 100\<bar> \<le> ?c * (3 / 10 ^ 14)" .
  then show ?thesis
    using assms(1) by (simp add: pct_def)
qed

subsection \<open>Unions, clipping and the shape of a run\<close>

lemma unary_union_iff: "x |\<in>| unary_union gs \<longleftrightarrow> (\<exists>g\<in>set gs. x |\<in>| g)"
  by (induction gs) auto

lemma unary_union_or_empty:
  "(if gs \<noteq> [] then unary_union gs else GeometryCollection) = unary_union gs"
  by (simp add: GeometryCollection_def)

lemma unary_union_map_or_empty:
  "(if gs \<noteq> [] then unary_union (map f gs) else GeometryCollection) = unary_union (map f gs)"
  by (simp add: GeometryCollection_def)

lemma unary_union_map_difference:
  "unary_union (map (\<lambda>g. difference g h) gs) = difference (unary_union gs) h"
  by (induction gs) (auto simp: difference_def)

lemma overlay_iff:
  "x |\<in>| unary_union (overlay_intersection df1 df2)
     \<longleftrightarrow> x |\<in>| unary_union df1 \<and> x |\<in>| unary_union df2"
  by (auto simp: unary_union_iff overlay_intersection_def intersection_def is_empty_def)

lemma unary_union_overlay:
  "unary_union (overlay_intersection df1 df2) = unary_union df1 |\<inter>| unary_union df2"
  by (rule fset_eqI) (simp add: overlay_iff)

lemma apply_priority_rules_eq:
  "apply_priority_rules oa0 bs cs gs =
     \<lparr>building_union = unary_union bs,
      carpark_union = unary_union cs |-| unary_union bs,
      greenspace_union = unary_union gs |-| (unary_union bs |\<union>| unary_union cs),
      opportunity_geom = oa0 |-| (unary_union bs |\<union>| unary_union cs |\<union>| unary_union gs)\<rparr>"
proof -
  have cu: "unary_union cs |-| unary_union bs |\<union>| unary_union bs = unary_union bs |\<union>| unary_union cs"
    by auto
  have gu: "unary_union bs |\<union>| (unary_union cs |-| unary_union bs) = unary_union bs |\<union>| unary_union cs"
    by auto
  have op: "unary_union bs |\<union>| (unary_union cs |-| unary_union bs |\<union>|
              (unary_union gs |-| (unary_union bs |\<union>| unary_union cs)))
            = unary_union bs |\<union>| unary_union cs |\<union>| unary_union gs"
    by auto
  show ?thesis
    unfolding apply_priority_rules_def Let_def
    by (simp add: unary_union_or_empty unary_union_map_or_empty unary_union_map_difference)
       (simp add: difference_def gu op)
qed


lemma area_or_zero_eq: "area_or_zero g = area g"
  by (simp add: area_or_zero_def is_empty_def area_def)

lemma fcard_priority_partition:
  fixes b :: "'a fset"
  shows "fcard B + fcard (C |-| B) + fcard (G |-| (B |\<union>| C)) + fcard (b |-| (B |\<union>| C |\<union>| G))
           = fcard (b |\<union>| (B |\<union>| C |\<union>| G))"
proof -
  have 1: "fcard (B |\<union>| (C |-| B)) = fcard B + fcard (C |-| B)"
    by (rule fcard_funion_disjoint) auto
  have 2: "fcard ((B |\<union>| C) |\<union>| (G |-| (B |\<union>| C))) = fcard (B |\<union>| C) + fcard (G |-| (B |\<union>| C))"
    by (rule fcard_funion_disjoint) auto
  have 3: "fcard ((B |\<union>| C |\<union>| G) |\<union>| (b |-| (B |\<union>| C |\<union>| G)))
             = fcard (B |\<union>| C |\<union>| G) + fcard (b |-| (B |\<union>| C |\<union>| G))"
    by (rule fcard_funion_disjoint) auto
  have e1: "B |\<union>| (C |-| B) = B |\<union>| C" by auto
  have e2: "(B |\<union>| C) |\<union>| (G |-| (B |\<union>| C)) = B |\<union>| C |\<union>| G" by auto
  have e3: "(B |\<union>| C |\<union>| G) |\<union>| (b |-| (B |\<union>| C |\<union>| G)) = b |\<union>| (B |\<union>| C |\<union>| G)" by auto
  from 1 2 3 show ?thesis unfolding e1 e2 e3 by simp
qed

lemma main_logic_Cons:
  "main_logic to_crs (oa0 # rest) bl cl gl =
     Inr \<lparr>surfaces = apply_priority_rules oa0 (overlay_intersection bl (oa0 # rest))
                          (overlay_intersection cl (oa0 # rest)) (overlay_intersection gl (oa0 # rest)),
             report = area_calculations oa0 (apply_priority_rules oa0 (overlay_intersection bl (oa0 # rest))
                          (overlay_intersection cl (oa0 # rest)) (overlay_intersection gl (oa0 # rest))),
             display = prepare_map_display to_crs (oa0 # rest)
                         (apply_priority_rules oa0 (overlay_intersection bl (oa0 # rest))
                          (overlay_intersection cl (oa0 # rest)) (overlay_intersection gl (oa0 # rest)))\<rparr>"
  by (simp add: Let_def)

lemma sum_of_areas:
  "building_area (area_calculations oa0 (apply_priority_rules oa0 bs cs gs))
   + carpark_area (area_calculations oa0 (apply_priority_rules oa0 bs cs gs))
   + greenspace_area (area_calculations oa0 (apply_priority_rules oa0 bs cs gs))
   + opportunity_area (area_calculations oa0 (apply_priority_rules oa0 bs cs gs))
   = area (oa0 |\<union>| (unary_union bs |\<union>| unary_union cs |\<union>| unary_union gs))"
  unfolding apply_priority_rules_eq area_calculations_def Let_def area_or_zero_eq area_def
  using fcard_priority_partition [of "unary_union bs" "unary_union cs" "unary_union gs" oa0]
  by simp

lemma area_nonneg: "0 \<le> area g"
  by (simp add: area_def)

lemma area_empty_iff: "area g = 0 \<longleftrightarrow> g = {||}"
  by (simp add: area_def)

lemma pct_fields:
  "building_pct (area_calculations oa0 c) = pct (building_area (area_calculations oa0 c)) (area oa0)"
  "carpark_pct (area_calculations oa0 c) = pct (carpark_area (area_calculations oa0 c)) (area oa0)"
  "greenspace_pct (area_calculations oa0 c) = pct (greenspace_area (area_calculations oa0 c)) (area oa0)"
  "opportunity_pct (area_calculations oa0 c) = pct (opportunity_area (area_calculations oa0 c)) (area oa0)"
  by (simp_all add: area_calculations_def Let_def)

lemma area_fields:
  "total_area (area_calculations oa0 c) = area oa0"
  "building_area (area_calculations oa0 c) = area (building_union c)"
  "carpark_area (area_calculations oa0 c) = area (carpark_union c)"
  "greenspace_area (area_calculations oa0 c) = area (greenspace_union c)"
  "opportunity_area (area_calculations oa0 c) = area (opportunity_geom c)"
  by (simp_all add: area_calculations_def Let_def area_or_zero_eq)

lemma single_row_sum:
  "building_area (area_calculations b (apply_priority_rules b (overlay_intersection bl [b])
       (overlay_intersection cl [b]) (overlay_intersection gl [b])))
   + carpark_area (area_calculations b (apply_priority_rules b (overlay_intersection bl [b])
       (overlay_intersection cl [b]) (overlay_intersection gl [b])))
   + greenspace_area (area_calculations b (apply_priority_rules b (overlay_intersection bl [b])
       (overlay_intersection cl [b]) (overlay_intersection gl [b])))
   + opportunity_area (area_calculations b (apply_priority_rules b (overlay_intersection bl [b])
       (overlay_intersection cl [b]) (overlay_intersection gl [b]))) = area b"
proof -
  have "b |\<union>| (unary_union (overlay_intersection bl [b]) |\<union>| unary_union (overlay_intersection cl [b])
          |\<union>| unary_union (overlay_intersection gl [b])) = b"
    by (auto simp: unary_union_overlay)
  then show ?thesis
    by (simp add: sum_of_areas)
qed

subsection \<open>Area conservation\<close>

text \<open>
  C1. For a boundary polygon \<open>b\<close> (the boundary frame holds this one geometry) and any three
  layers, the run produces a report, and the four reported areas (buildings, car park,
  greenspace, opportunity) add up to the planar area of \<open>b\<close>, which is also the reported
  total. In the exact model the equality holds without tolerance.
\<close>

theorem area_conservation:
  "\<exists>r. main_logic to_crs [b] buildings_layer carpark_layer greenspace_layer = Inr r
      \<and> building_area (report r) + carpark_area (report r)
          + greenspace_area (report r) + opportunity_area (report r) = area b
      \<and> total_area (report r) = area b"
  unfolding main_logic_Cons
  by (simp add: single_row_sum area_fields(1))

subsection \<open>Pairwise disjointness\<close>

text \<open>
  C2. Every run that reaches the classification (any boundary frame with at least one row,
  any layers) yields four class geometries of which any two intersect in area 0.
\<close>

theorem pairwise_disjointness:
  "\<exists>r. main_logic to_crs (oa0 # rest) buildings_layer carpark_layer greenspace_layer = Inr r
       \<and> area (intersection (building_union (surfaces r)) (carpark_union (surfaces r))) = 0
       \<and> area (intersection (building_union (surfaces r)) (greenspace_union (surfaces r))) = 0
       \<and> area (intersection (building_union (surfaces r)) (opportunity_geom (surfaces r))) = 0
       \<and> area (intersection (carpark_union (surfaces r)) (greenspace_union (surfaces r))) = 0
       \<and> area (intersection (carpark_union (surfaces r)) (opportunity_geom (surfaces r))) = 0
       \<and> area (intersection (greenspace_union (surfaces r)) (opportunity_geom (surfaces r))) = 0"
  unfolding main_logic_Cons
  by (simp add: apply_priority_rules_eq area_empty_iff intersection_def) auto

subsection \<open>Percentage normalization\<close>

text \<open>
  C7. For a boundary polygon of positive area, the four reported percentages are finite
  doubles and their sum differs from 100 by at most \<open>3 / 10^14\<close>: each percentage
  carries the rounding of its quotient and of its product with 100.
\<close>

theorem percentage_normalization:
  assumes "0 < area b"
  shows "\<exists>r p1 p2 p3 p4.
           main_logic to_crs [b] buildings_layer carpark_layer greenspace_layer = Inr r
         \<and> building_pct (report r) = Finite p1 \<and> carpark_pct (report r) = Finite p2
         \<and> greenspace_pct (report r) = Finite p3 \<and> opportunity_pct (report r) = Finite p4
         \<and> \<bar>p1 + p2 + p3 + p4 - 100\<bar> \<le> 3 / 10 ^ 14"
proof -
  let ?c = "apply_priority_rules b (overlay_intersection buildings_layer [b])
              (overlay_intersection carpark_layer [b]) (overlay_intersection greenspace_layer [b])"
  let ?a = "area_calculations b ?c"
  let ?t = "area b"
  from assms have nz: "?t \<noteq> 0" by simp
  have nn: "0 \<le> building_area ?a / ?t" "0 \<le> carpark_area ?a / ?t"
    "0 \<le> greenspace_area ?a / ?t" "0 \<le> opportunity_area ?a / ?t"
    using assms by (simp_all add: area_fields area_nonneg)
  have "building_area ?a / ?t + carpark_area ?a / ?t + greenspace_area ?a / ?t
        + opportunity_area ?a / ?t
        = (building_area ?a + carpark_area ?a + greenspace_area ?a + opportunity_area ?a) / ?t"
    by (simp add: add_divide_distrib)
  also have "\<dots> = 1"
    using nz by (simp add: single_row_sum)
  finally have one: "building_area ?a / ?t + carpark_area ?a / ?t + greenspace_area ?a / ?t
        + opportunity_area ?a / ?t = 1" .
  from pct_error [OF nz nn(1)] obtain p1 where
    p1: "pct (building_area ?a) ?t = Finite p1"
        "\<bar>p1 - building_area ?a / ?t * 100\<bar> \<le> building_area ?a / ?t * (3 / 10 ^ 14)"
    by blast
  from pct_error [OF nz nn(2)] obtain p2 where
    p2: "pct (carpark_area ?a) ?t = Finite p2"
        "\<bar>p2 - carpark_area ?a / ?t * 100\<bar> \<le> carpark_area ?a / ?t * (3 / 10 ^ 14)"
    by blast
  from pct_error [OF nz nn(3)] obtain p3 where
    p3: "pct (greenspace_area ?a) ?t = Finite p3"
        "\<bar>p3 - greenspace_area ?a / ?t * 100\<bar> \<le> greenspace_area ?a / ?t * (3 / 10 ^ 14)"
    by blast
  from pct_error [OF nz nn(4)] obtain p4 where
    p4: "pct (opportunity_area ?a) ?t = Finite p4"
        "\<bar>p4 - opportunity_area ?a / ?t * 100\<bar> \<le> opportunity_area ?a / ?t * (3 / 10 ^ 14)"
    by blast
  have "\<bar>p1 + p2 + p3 + p4 - 100\<bar> \<le> 3 / 10 ^ 14"
    using p1(2) p2(2) p3(2) p4(2) one by (rule abs_sum_four)
  then show ?thesis
    unfolding main_logic_Cons
    by (simp add: pct_fields p1(1) p2(1) p3(1) p4(1))
qed

theorem percentage_normalization_witness:
  "0 < area {|(0, 0), (0, 1)|}
   \<and> (\<exists>r p1 p2 p3 p4.
           main_logic id [{|(0, 0), (0, 1)|}] [{|(0, 1), (7, 7)|}] [] [] = Inr r
         \<and> building_pct (report r) = Finite p1 \<and> carpark_pct (report r) = Finite p2
         \<and> greenspace_pct (report r) = Finite p3 \<and> opportunity_pct (report r) = Finite p4
         \<and> \<bar>p1 + p2 + p3 + p4 - 100\<bar> \<le> 3 / 10 ^ 14)"
proof -
  have h: "0 < area {|(0, 0), (0, 1)|}"
    by (simp add: area_def fcard_finsert_if)
  from h percentage_normalization [OF h, of id "[{|(0, 1), (7, 7)|}]" "[]" "[]"]
  show ?thesis by (rule conjI)
qed

text \<open>
  The sum need not be 100: on a boundary of three cells, one cell per class, each
  percentage is the double nearest to \<open>100 / 3\<close> after two roundings.
\<close>

lemma three_cell_percentages:
  "map_sum id report
     (main_logic id [{|(0, 0), (0, 1), (0, 2)|}] [{|(0, 0)|}] [{|(0, 1)|}] [{|(0, 2)|}])
   = Inr \<lparr>total_area = 3, building_area = 1, carpark_area = 1,
           greenspace_area = 1, opportunity_area = 0,
           building_pct = Finite (2345624805922133 / 70368744177664),
           carpark_pct = Finite (2345624805922133 / 70368744177664),
           greenspace_pct = Finite (2345624805922133 / 70368744177664),
           opportunity_pct = Finite 0\<rparr>"
  by code_simp

subsection \<open>The classifier refines the specification's algorithm\<close>

text \<open>
  C4. Subtracting from every row and then merging, as the script does, gives the same four
  geometries as merging the raw layer and subtracting once, as the specification words it;
  in particular \<open>carpark_union\<close> is \<open>carpark_raw.difference(building_union)\<close> and
  \<open>greenspace_union\<close> is \<open>greenspace_raw.difference(occupied)\<close>.
\<close>

theorem refinement_equivalence:
  "apply_priority_rules boundary buildings carpark greenspace
     = spec_classify boundary buildings carpark greenspace
   \<and> carpark_union (apply_priority_rules boundary buildings carpark greenspace)
       = difference (unary_union carpark) (building_union (spec_classify boundary buildings carpark greenspace))
   \<and> greenspace_union (apply_priority_rules boundary buildings carpark greenspace)
       = difference (unary_union greenspace)
           (unary_union [building_union (spec_classify boundary buildings carpark greenspace),
                         carpark_union (spec_classify boundary buildings carpark greenspace)])"
proof -
  have s: "spec_classify boundary buildings carpark greenspace =
     \<lparr>building_union = unary_union buildings,
      carpark_union = unary_union carpark |-| unary_union buildings,
      greenspace_union = unary_union greenspace |-| (unary_union buildings |\<union>| unary_union carpark),
      opportunity_geom = boundary |-| (unary_union buildings |\<union>| unary_union carpark |\<union>| unary_union greenspace)\<rparr>"
  proof -
    have gu: "unary_union buildings |\<union>| (unary_union carpark |-| unary_union buildings)
                = unary_union buildings |\<union>| unary_union carpark"
      by auto
    have op: "unary_union buildings |\<union>| (unary_union carpark |-| unary_union buildings |\<union>|
              (unary_union greenspace |-| (unary_union buildings |\<union>| unary_union carpark)))
            = unary_union buildings |\<union>| unary_union carpark |\<union>| unary_union greenspace"
      by auto
    have bu: "(if buildings = [] then GeometryCollection else unary_union buildings) = unary_union buildings"
      by (simp add: GeometryCollection_def)
    show ?thesis
      unfolding spec_classify_def Let_def bu
      by (simp add: difference_def gu op)
  qed
  show ?thesis
    unfolding s apply_priority_rules_eq
    by (simp add: difference_def)
qed

subsection \<open>Degenerate boundaries\<close>

lemma pct_finite_iff: "is_finite (pct x t) \<longleftrightarrow> t \<noteq> 0"
  by (simp add: pct_def)

text \<open>
  C3, as stated, fails. The script has no check on the boundary's area and no
  \<open>InvalidBoundaryError\<close>: for a boundary frame whose only row is the empty geometry
  (area 0) the run does not fail; it produces a report in which every percentage is
  \<open>nan\<close>, the outcome of dividing 0 by 0.
\<close>

theorem degenerate_boundary_counterexample:
  "area GeometryCollection = 0
   \<and> map_sum id report
         (main_logic id [GeometryCollection] [{|(0, 0)|}] [{|(1, 0)|}] [{|(2, 0)|}])
       = Inr \<lparr>total_area = 0, building_area = 0, carpark_area = 0,
               greenspace_area = 0, opportunity_area = 0,
               building_pct = NaN, carpark_pct = NaN,
               greenspace_pct = NaN, opportunity_pct = NaN\<rparr>"
  by (simp add: Let_def overlay_intersection_def intersection_def apply_priority_rules_def
        difference_def GeometryCollection_def area_calculations_def area_or_zero_def
        area_def pct_def is_empty_def)

text \<open>
  C3, amended. A boundary of zero area is not rejected: whenever the first row matched for
  the Output Area code holds a geometry, of whatever area, the run produces a report. In
  that report every class area is a real number, never \<open>nan\<close>: exactly 0 for an empty
  class geometry and the area of the geometry otherwise. The division by the boundary's
  area is safe exactly when that area is positive: each percentage is a finite number if
  and only if the first row has positive area.
\<close>

theorem boundary_failure_amended:
  assumes "extract_oa_boundary oa_layer oa_code = Some oa0 # rest"
  shows "\<exists>r. surface_analysis to_crs oa_layer oa_code buildings_layer carpark_layer
               greenspace_layer = Inr r
        \<and> total_area (report r) = area oa0
        \<and> building_area (report r)
            = (if is_empty (building_union (surfaces r)) then 0
               else area (building_union (surfaces r)))
        \<and> carpark_area (report r)
            = (if is_empty (carpark_union (surfaces r)) then 0
               else area (carpark_union (surfaces r)))
        \<and> greenspace_area (report r)
            = (if is_empty (greenspace_union (surfaces r)) then 0
               else area (greenspace_union (surfaces r)))
        \<and> opportunity_area (report r)
            = (if is_empty (opportunity_geom (surfaces r)) then 0
               else area (opportunity_geom (surfaces r)))
        \<and> is_finite (building_pct (report r)) = (0 < area oa0)
        \<and> is_finite (carpark_pct (report r)) = (0 < area oa0)
        \<and> is_finite (greenspace_pct (report r)) = (0 < area oa0)
        \<and> is_finite (opportunity_pct (report r)) = (0 < area oa0)"
proof -
  have nz: "(area oa0 \<noteq> 0) = (0 < area oa0)"
    using area_nonneg [of oa0] by linarith
  have run: "surface_analysis to_crs oa_layer oa_code buildings_layer carpark_layer
               greenspace_layer
             = main_logic to_crs (oa0 # present rest) buildings_layer carpark_layer
                 greenspace_layer"
    using assms by (simp add: surface_analysis_def)
  show ?thesis
    unfolding run main_logic_Cons
    by (simp add: pct_fields pct_finite_iff nz)
       (simp add: area_calculations_def Let_def area_or_zero_def)
qed

theorem boundary_failure_amended_witness:
  "extract_oa_boundary [\<lparr>OA21CD = ''E00000001'', geometry = Some GeometryCollection\<rparr>]
       ''E00000001'' = Some GeometryCollection # []
   \<and> (\<exists>r. surface_analysis id [\<lparr>OA21CD = ''E00000001'', geometry = Some GeometryCollection\<rparr>]
              ''E00000001'' [{|(0, 0)|}] [{|(1, 0)|}] [{|(2, 0)|}] = Inr r
        \<and> total_area (report r) = area GeometryCollection
        \<and> building_area (report r)
            = (if is_empty (building_union (surfaces r)) then 0
               else area (building_union (surfaces r)))
        \<and> carpark_area (report r)
            = (if is_empty (carpark_union (surfaces r)) then 0
               else area (carpark_union (surfaces r)))
        \<and> greenspace_area (report r)
            = (if is_empty (greenspace_union (surfaces r)) then 0
               else area (greenspace_union (surfaces r)))
        \<and> opportunity_area (report r)
            = (if is_empty (opportunity_geom (surfaces r)) then 0
               else area (opportunity_geom (surfaces r)))
        \<and> is_finite (building_pct (report r)) = (0 < area GeometryCollection)
        \<and> is_finite (carpark_pct (report r)) = (0 < area GeometryCollection)
        \<and> is_finite (greenspace_pct (report r)) = (0 < area GeometryCollection)
        \<and> is_finite (opportunity_pct (report r)) = (0 < area GeometryCollection))"
proof -
  have h: "extract_oa_boundary [\<lparr>OA21CD = ''E00000001'', geometry = Some GeometryCollection\<rparr>]
             ''E00000001'' = Some GeometryCollection # []"
    by (simp add: extract_oa_boundary_def)
  note t = boundary_failure_amended [OF h, of id "[{|(0, 0)|}]" "[{|(1, 0)|}]" "[{|(2, 0)|}]"]
  show ?thesis
    by (rule conjI [OF h t])
qed

text \<open>
  The two failures of the lookup: no row for the code, and a first row without geometry.
\<close>

lemma lookup_failures:
  "surface_analysis id [\<lparr>OA21CD = ''E00000002'', geometry = Some {|(0, 0)|}\<rparr>]
     ''E00000001'' [] [] [] = Inl OutputAreaGeometryNotFound"
  "surface_analysis id [\<lparr>OA21CD = ''E00000001'', geometry = None\<rparr>]
     ''E00000001'' [] [] [] = Inl AttributeError"
  by (simp_all add: surface_analysis_def extract_oa_boundary_def)

subsection \<open>Empty inputs\<close>

lemma pct_zero: "t \<noteq> 0 \<Longrightarrow> pct 0 t = Finite 0"
  by (simp add: pct_def float64_zero)

lemma area_fempty: "area {||} = 0"
  by (simp add: area_def)

text \<open>
  C5. For a boundary whose first row has positive area the run produces a report, and:
  if no car park is left after clipping (in particular if the car park layer is empty),
  \<open>carpark_union\<close> is empty, its area is exactly 0, its percentage is exactly 0, and
  the greenspace difference is taken against the buildings alone; likewise an empty
  buildings frame gives an empty \<open>building_union\<close> with area and percentage 0 and leaves
  the car park union untouched by the difference, and an empty greenspace frame gives an
  empty \<open>greenspace_union\<close> with area and percentage 0.
\<close>

theorem empty_input_safety:
  assumes "0 < area oa0"
  shows "\<exists>r. main_logic to_crs (oa0 # rest) buildings_layer carpark_layer greenspace_layer = Inr r
     \<and> (overlay_intersection carpark_layer (oa0 # rest) = [] \<longrightarrow>
          is_empty (carpark_union (surfaces r)) \<and> carpark_area (report r) = 0
          \<and> carpark_pct (report r) = Finite 0
          \<and> greenspace_union (surfaces r)
              = difference (unary_union (overlay_intersection greenspace_layer (oa0 # rest)))
                  (building_union (surfaces r)))
     \<and> (overlay_intersection buildings_layer (oa0 # rest) = [] \<longrightarrow>
          is_empty (building_union (surfaces r)) \<and> building_area (report r) = 0
          \<and> building_pct (report r) = Finite 0
          \<and> carpark_union (surfaces r)
              = unary_union (overlay_intersection carpark_layer (oa0 # rest)))
     \<and> (overlay_intersection greenspace_layer (oa0 # rest) = [] \<longrightarrow>
          is_empty (greenspace_union (surfaces r)) \<and> greenspace_area (report r) = 0
          \<and> greenspace_pct (report r) = Finite 0)"
proof -
  from assms have nz: "area oa0 \<noteq> 0" by simp
  show ?thesis
    unfolding main_logic_Cons
    by (simp add: area_fields pct_fields apply_priority_rules_eq is_empty_def area_fempty
          pct_zero [OF nz] difference_def)
qed

theorem empty_input_safety_witness:
  "0 < area {|(0, 0)|}
   \<and> (\<exists>r. main_logic id [{|(0, 0)|}] [] [] [] = Inr r
     \<and> (overlay_intersection [] [{|(0, 0)|}] = [] \<longrightarrow>
          is_empty (carpark_union (surfaces r)) \<and> carpark_area (report r) = 0
          \<and> carpark_pct (report r) = Finite 0
          \<and> greenspace_union (surfaces r)
              = difference (unary_union (overlay_intersection [] [{|(0, 0)|}]))
                  (building_union (surfaces r)))
     \<and> (overlay_intersection [] [{|(0, 0)|}] = [] \<longrightarrow>
          is_empty (building_union (surfaces r)) \<and> building_area (report r) = 0
          \<and> building_pct (report r) = Finite 0
          \<and> carpark_union (surfaces r)
              = unary_union (overlay_intersection [] [{|(0, 0)|}]))
     \<and> (overlay_intersection [] [{|(0, 0)|}] = [] \<longrightarrow>
          is_empty (greenspace_union (surfaces r)) \<and> greenspace_area (report r) = 0
          \<and> greenspace_pct (report r) = Finite 0))
   \<and> overlay_intersection [] [{|(0, 0)|}] = []"
proof -
  have h: "0 < area {|(0, 0)|}"
    by (simp add: area_def fcard_finsert_if)
  have e: "overlay_intersection [] [{|(0, 0)|}] = []"
    by (simp add: overlay_intersection_def)
  from h empty_input_safety [OF h, of id "[]" "[]" "[]" "[]"] e
  show ?thesis by blast
qed

subsection \<open>Priority of buildings\<close>

text \<open>
  C6. If a car park polygon \<open>c\<close> lies inside a building polygon \<open>b\<close>, then \<open>c\<close>
  shares no area with \<open>carpark_union\<close>, both when the polygons are rows of the clipped
  frames handed to the priority rules and when they are rows of the raw layers of a run;
  and \<open>building_union\<close> is the union of the (clipped) buildings, whatever the car park
  and greenspace layers are.
\<close>

theorem priority_monotonicity:
  assumes "c \<in> set carpark" and "b \<in> set buildings" and "c |\<subseteq>| b"
  shows "area (intersection c (carpark_union (apply_priority_rules oa0 buildings carpark greenspace))) = 0
     \<and> building_union (apply_priority_rules oa0 buildings carpark greenspace)
         = unary_union buildings
     \<and> (\<exists>r. main_logic to_crs (oa0 # rest) buildings carpark greenspace = Inr r
          \<and> area (intersection c (carpark_union (surfaces r))) = 0
          \<and> building_union (surfaces r)
              = unary_union (overlay_intersection buildings (oa0 # rest)))"
proof -
  have inb: "x |\<in>| unary_union buildings" if "x |\<in>| c" for x
    using that assms(2,3) unary_union_iff [of x buildings] by auto
  have clipped: "c |\<inter>| (unary_union carpark |-| unary_union buildings) = {||}"
    using inb by auto
  have raw: "c |\<inter>| (unary_union (overlay_intersection carpark (oa0 # rest))
                   |-| unary_union (overlay_intersection buildings (oa0 # rest))) = {||}"
  proof (rule fset_eqI)
    fix x
    show "x |\<in>| c |\<inter>| (unary_union (overlay_intersection carpark (oa0 # rest))
                   |-| unary_union (overlay_intersection buildings (oa0 # rest)))
          \<longleftrightarrow> x |\<in>| {||}"
      using inb [of x] by (auto simp: overlay_iff)
  qed
  show ?thesis
    unfolding main_logic_Cons
    by (simp add: apply_priority_rules_eq intersection_def area_fempty clipped raw)
qed

theorem priority_monotonicity_witness:
  "{|(0, 0)|} \<in> set [{|(0, 0)|}, {|(1, 0)|} :: geometry]
   \<and> {|(0, 0), (0, 1)|} \<in> set [{|(0, 0), (0, 1)|} :: geometry]
   \<and> {|(0, 0)|} |\<subseteq>| ({|(0, 0), (0, 1)|} :: geometry)
   \<and> area (intersection {|(0, 0)|} (carpark_union (apply_priority_rules {|(0, 0), (0, 1), (1, 0)|}
              [{|(0, 0), (0, 1)|}] [{|(0, 0)|}, {|(1, 0)|}] []))) = 0
   \<and> building_union (apply_priority_rules {|(0, 0), (0, 1), (1, 0)|}
              [{|(0, 0), (0, 1)|}] [{|(0, 0)|}, {|(1, 0)|}] [])
         = unary_union [{|(0, 0), (0, 1)|}]
   \<and> (\<exists>r. main_logic id ({|(0, 0), (0, 1), (1, 0)|} # []) [{|(0, 0), (0, 1)|}]
              [{|(0, 0)|}, {|(1, 0)|}] [] = Inr r
     \<and> area (intersection {|(0, 0)|} (carpark_union (surfaces r))) = 0
     \<and> building_union (surfaces r)
         = unary_union (overlay_intersection [{|(0, 0), (0, 1)|}] ({|(0, 0), (0, 1), (1, 0)|} # [])))"
proof -
  have h1: "{|(0, 0)|} \<in> set [{|(0, 0)|}, {|(1, 0)|} :: geometry]" by simp
  have h2: "{|(0, 0), (0, 1)|} \<in> set [{|(0, 0), (0, 1)|} :: geometry]" by simp
  have h3: "{|(0, 0)|} |\<subseteq>| ({|(0, 0), (0, 1)|} :: geometry)" by simp
  note t = priority_monotonicity [OF h1 h2 h3, of "{|(0, 0), (0, 1), (1, 0)|}" "[]" id "[]"]
  show ?thesis
    by (rule conjI [OF h1 conjI [OF h2 conjI [OF h3 t]]])
qed

subsection \<open>Result projection\<close>

text \<open>
  C8. \<open>to_wgs84\<close> returns \<open>None\<close> exactly when the geometry is empty and the reprojected
  geometry otherwise; a class whose display value is \<open>None\<close> contributes no map layer;
  and in every run the four display values are \<open>to_wgs84\<close> of the four class geometries.
\<close>

theorem result_projection:
  "(to_wgs84 to_crs geom = None) = is_empty geom
   \<and> (to_wgs84 to_crs geom = Some (to_crs geom)) = (\<not> is_empty geom)
   \<and> class_layer (to_wgs84 to_crs geom) rgba
       = (if is_empty geom \<or> is_empty (to_crs geom) then []
          else [\<lparr>layer_data = [to_crs geom], filled = True, colour = rgba\<rparr>])
   \<and> (\<exists>r. main_logic to_crs (oa0 # rest) buildings_layer carpark_layer greenspace_layer = Inr r
        \<and> building_display (display r) = to_wgs84 to_crs (building_union (surfaces r))
        \<and> carpark_display (display r) = to_wgs84 to_crs (carpark_union (surfaces r))
        \<and> greenspace_display (display r) = to_wgs84 to_crs (greenspace_union (surfaces r))
        \<and> opportunity_display (display r) = to_wgs84 to_crs (opportunity_geom (surfaces r)))"
  unfolding main_logic_Cons
  by (simp add: to_wgs84_def class_layer_def truthy_def prepare_map_display_def Let_def)

subsection \<open>Determinism\<close>

lemma unary_union_cong_set: "set gs = set hs \<Longrightarrow> unary_union gs = unary_union hs"
  by (rule fset_eqI) (simp add: unary_union_iff)

lemma overlay_cong_set:
  "set df1 = set df1' \<Longrightarrow>
   unary_union (overlay_intersection df1 df2) = unary_union (overlay_intersection df1' df2)"
  by (simp add: unary_union_overlay unary_union_cong_set [of df1 df1'])

text \<open>
  C9. The outcome of a run is a function of its inputs, and listing the rows of the three
  layers in another order (the same rows, as multisets) gives the same outcome: the same
  class geometries, the same report and the same display values.
\<close>

theorem rerun_determinism:
  assumes "mset buildings_layer' = mset buildings_layer"
    and "mset carpark_layer' = mset carpark_layer"
    and "mset greenspace_layer' = mset greenspace_layer"
  shows "main_logic to_crs oa_boundary buildings_layer' carpark_layer' greenspace_layer'
         = main_logic to_crs oa_boundary buildings_layer carpark_layer greenspace_layer"
proof (cases oa_boundary)
  case Nil
  then show ?thesis by simp
next
  case (Cons oa0 rest)
  have b: "set buildings_layer' = set buildings_layer"
    using assms(1) by (rule mset_eq_setD)
  have c: "set carpark_layer' = set carpark_layer"
    using assms(2) by (rule mset_eq_setD)
  have g: "set greenspace_layer' = set greenspace_layer"
    using assms(3) by (rule mset_eq_setD)
  show ?thesis
    unfolding Cons main_logic_Cons apply_priority_rules_eq
    by (simp add: overlay_cong_set [OF b] overlay_cong_set [OF c] overlay_cong_set [OF g])
qed

theorem rerun_determinism_witness:
  "mset [{|(0, 0)|}, {|(0, 1)|}] = mset [{|(0, 1)|}, {|(0, 0)|} :: geometry]
   \<and> mset [{|(1, 0)|}, {|(0, 0)|}] = mset [{|(0, 0)|}, {|(1, 0)|} :: geometry]
   \<and> mset ([] :: geometry list) = mset []
   \<and> main_logic id [{|(0, 0), (0, 1), (1, 0), (1, 1)|}] [{|(0, 0)|}, {|(0, 1)|}]
        [{|(1, 0)|}, {|(0, 0)|}] []
      = main_logic id [{|(0, 0), (0, 1), (1, 0), (1, 1)|}] [{|(0, 1)|}, {|(0, 0)|}]
        [{|(0, 0)|}, {|(1, 0)|}] []"
proof -
  have h1: "mset [{|(0, 0)|}, {|(0, 1)|}] = mset [{|(0, 1)|}, {|(0, 0)|} :: geometry]" by simp
  have h2: "mset [{|(1, 0)|}, {|(0, 0)|}] = mset [{|(0, 0)|}, {|(1, 0)|} :: geometry]" by simp
  have h3: "mset ([] :: geometry list) = mset []" by simp
  note t = rerun_determinism [OF h1 h2 h3, of id "[{|(0, 0), (0, 1), (1, 0), (1, 1)|}]"]
  show ?thesis
    by (rule conjI [OF h1 conjI [OF h2 conjI [OF h3 t]]])
qed

subsection \<open>The first row of the boundary frame\<close>

text \<open>
  C10. For a boundary frame \<open>oa0 # rest\<close>, the three layers are clipped against all
  rows (each class geometry is cut from the raw union intersected with the union of all
  rows), while the opportunity geometry is the first row \<open>oa0\<close> minus the classified
  surface, the total is the area of \<open>oa0\<close>, and every percentage is taken relative to
  the area of \<open>oa0\<close>. When the frame has a single row the first row is the whole
  boundary, so both views coincide.
\<close>

theorem first_row_restriction:
  "\<exists>r. main_logic to_crs (oa0 # rest) buildings_layer carpark_layer greenspace_layer = Inr r
     \<and> building_union (surfaces r)
         = intersection (unary_union buildings_layer) (unary_union (oa0 # rest))
     \<and> carpark_union (surfaces r)
         = difference (intersection (unary_union carpark_layer) (unary_union (oa0 # rest)))
             (building_union (surfaces r))
     \<and> greenspace_union (surfaces r)
         = difference (intersection (unary_union greenspace_layer) (unary_union (oa0 # rest)))
             (unary_union [building_union (surfaces r), carpark_union (surfaces r)])
     \<and> opportunity_geom (surfaces r)
         = difference oa0 (unary_union [building_union (surfaces r), carpark_union (surfaces r),
                                        greenspace_union (surfaces r)])
     \<and> total_area (report r) = area oa0
     \<and> building_pct (report r) = pct (building_area (report r)) (area oa0)
     \<and> carpark_pct (report r) = pct (carpark_area (report r)) (area oa0)
     \<and> greenspace_pct (report r) = pct (greenspace_area (report r)) (area oa0)
     \<and> opportunity_pct (report r) = pct (opportunity_area (report r)) (area oa0)
     \<and> (rest = [] \<longrightarrow>
           opportunity_geom (surfaces r)
             = difference (unary_union (oa0 # rest))
                 (unary_union [building_union (surfaces r), carpark_union (surfaces r),
                               greenspace_union (surfaces r)])
         \<and> total_area (report r) = area (unary_union (oa0 # rest)))"
proof -
  have g: "B |\<union>| (C |-| B) = B |\<union>| C" for B C :: geometry
    by auto
  have p: "B |\<union>| (C |-| B |\<union>| (G |-| (B |\<union>| C))) = B |\<union>| C |\<union>| G" for B C G :: geometry
    by auto
  show ?thesis
    unfolding main_logic_Cons
    by (simp add: area_fields pct_fields apply_priority_rules_eq unary_union_overlay
          intersection_def difference_def g p)
qed

theorem first_row_restriction_witness:
  "([] :: geometry list) = []
   \<and> (\<exists>r. main_logic id ({|(0, 0), (0, 1)|} # []) [{|(0, 0)|}] [] [{|(0, 1), (3, 3)|}] = Inr r
     \<and> building_union (surfaces r)
         = intersection (unary_union [{|(0, 0)|}]) (unary_union ({|(0, 0), (0, 1)|} # []))
     \<and> carpark_union (surfaces r)
         = difference (intersection (unary_union []) (unary_union ({|(0, 0), (0, 1)|} # [])))
             (building_union (surfaces r))
     \<and> greenspace_union (surfaces r)
         = difference (intersection (unary_union [{|(0, 1), (3, 3)|}]) (unary_union ({|(0, 0), (0, 1)|} # [])))
             (unary_union [building_union (surfaces r), carpark_union (surfaces r)])
     \<and> opportunity_geom (surfaces r)
         = difference {|(0, 0), (0, 1)|} (unary_union [building_union (surfaces r), carpark_union (surfaces r),
                                        greenspace_union (surfaces r)])
     \<and> total_area (report r) = area {|(0, 0), (0, 1)|}
     \<and> building_pct (report r) = pct (building_area (report r)) (area {|(0, 0), (0, 1)|})
     \<and> carpark_pct (report r) = pct (carpark_area (report r)) (area {|(0, 0), (0, 1)|})
     \<and> greenspace_pct (report r) = pct (greenspace_area (report r)) (area {|(0, 0), (0, 1)|})
     \<and> opportunity_pct (report r) = pct (opportunity_area (report r)) (area {|(0, 0), (0, 1)|})
     \<and> (([] :: geometry list) = [] \<longrightarrow>
           opportunity_geom (surfaces r)
             = difference (unary_union ({|(0, 0), (0, 1)|} # []))
                 (unary_union [building_union (surfaces r), carpark_union (surfaces r),
                               greenspace_union (surfaces r)])
         \<and> total_area (report r) = area (unary_union ({|(0, 0), (0, 1)|} # []))))"
proof -
  have h: "([] :: geometry list) = []" by (rule refl)
  note t = first_row_restriction [of id "{|(0, 0), (0, 1)|}" "[]" "[{|(0, 0)|}]" "[]" "[{|(0, 1), (3, 3)|}]"]
  show ?thesis
    by (rule conjI [OF h t])
qed

text \<open>
  A frame with two rows for the matched code: the building cell of the second row is
  counted, the total is the first row's area, and the areas add up to 5 against a total
  of 4.
\<close>

lemma two_row_boundary_example:
  "map_sum id report
     (surface_analysis id
        [\<lparr>OA21CD = ''E00000001'', geometry = Some {|(0, 0), (0, 1), (1, 0), (1, 1)|}\<rparr>,
         \<lparr>OA21CD = ''E00000002'', geometry = Some {|(9, 9)|}\<rparr>,
         \<lparr>OA21CD = ''E00000001'', geometry = Some {|(5, 5)|}\<rparr>]
        ''E00000001''
        [{|(0, 0), (5, 5)|}] [{|(0, 0), (0, 1)|}] [{|(1, 1), (0, 1)|}])
   = Inr \<lparr>total_area = 4, building_area = 2, carpark_area = 1,
           greenspace_area = 1, opportunity_area = 1,
           building_pct = Finite 50, carpark_pct = Finite 25,
           greenspace_pct = Finite 25, opportunity_pct = Finite 25\<rparr>"
  by code_simp

end
